theory Spec2Isabelle
  imports Main "HOL-Library.Word"
begin

section \<open>JavaScript strings\<close>

text \<open>
  A JavaScript string is a sequence of UTF-16 code units. User input (search text, form
  fields, file names, provider fields) is modelled as such a sequence; \<open>js\<close> embeds an
  ASCII literal of the source.
\<close>

type_synonym code_unit = "16 word"
type_synonym jsstring = "code_unit list"

definition js :: "string \<Rightarrow> jsstring" where
  "js s = map (\<lambda>c. of_nat (of_char c)) s"

text \<open>A string is truthy when it is not empty (\<open>if (searchText)\<close>, \<open>x || y\<close>).\<close>

definition truthy :: "jsstring \<Rightarrow> bool" where
  "truthy s = (s \<noteq> [])"

text \<open>
  \<open>String.prototype.trim\<close> removes the code units of the ECMAScript productions
  WhiteSpace and LineTerminator from both ends.
\<close>

definition isWhiteSpace :: "code_unit \<Rightarrow> bool" where
  "isWhiteSpace c =
     (c = 0x0009 \<or> c = 0x000A \<or> c = 0x000B \<or> c = 0x000C \<or> c = 0x000D \<or>
      c = 0x0020 \<or> c = 0x00A0 \<or> c = 0x1680 \<or> (0x2000 \<le> c \<and> c \<le> 0x200A) \<or>
      c = 0x2028 \<or> c = 0x2029 \<or> c = 0x202F \<or> c = 0x205F \<or> c = 0x3000 \<or>
      c = 0xFEFF)"

definition trim :: "jsstring \<Rightarrow> jsstring" where
  "trim s = rev (dropWhile isWhiteSpace (rev (dropWhile isWhiteSpace s)))"

text \<open>\<open>t.startsWith(s)\<close>, \<open>t.includes(s)\<close> and \<open>t.endsWith(s)\<close>, on code units.\<close>

fun startsWith :: "'a list \<Rightarrow> 'a list \<Rightarrow> bool" where
  "startsWith t [] = True"
| "startsWith [] (y # ys) = False"
| "startsWith (x # xs) (y # ys) = (x = y \<and> startsWith xs ys)"

fun includes_str :: "'a list \<Rightarrow> 'a list \<Rightarrow> bool" where
  "includes_str [] s = startsWith [] s"
| "includes_str (x # xs) s = (startsWith (x # xs) s \<or> includes_str xs s)"

definition endsWith :: "'a list \<Rightarrow> 'a list \<Rightarrow> bool" where
  "endsWith t s = startsWith (rev t) (rev s)"

text \<open>
  \<open>String.prototype.toLowerCase\<close> is the Unicode default case conversion, with the
  context-sensitive mappings of SpecialCasing. On a string of ASCII code units it maps
  \<open>A\<close>..\<open>Z\<close> to \<open>a\<close>..\<open>z\<close> and leaves every other unit alone.
\<close>

definition isAscii :: "jsstring \<Rightarrow> bool" where
  "isAscii s = list_all (\<lambda>c. c < 0x80) s"

definition asciiLower :: "code_unit \<Rightarrow> code_unit" where
  "asciiLower c = (if 0x41 \<le> c \<and> c \<le> 0x5A then c + 0x20 else c)"

text \<open>
  The capital sigma U+03A3 becomes the final sigma U+03C2 when a cased letter comes before
  it, with only case-ignorable characters in between, and no cased letter comes after it,
  with only case-ignorable characters in between (the condition Final_Sigma); it becomes
  the small sigma U+03C3 otherwise. In a string of ASCII letters and capital sigmas every
  unit is a cased letter and none is case-ignorable, so there a capital sigma is final
  exactly when it is the last unit and not the first. \<open>preceded\<close> says whether a unit came
  before.
\<close>

definition isAsciiLetter :: "code_unit \<Rightarrow> bool" where
  "isAsciiLetter c = ((0x41 \<le> c \<and> c \<le> 0x5A) \<or> (0x61 \<le> c \<and> c \<le> 0x7A))"

definition isLettersAndSigma :: "jsstring \<Rightarrow> bool" where
  "isLettersAndSigma s = list_all (\<lambda>c. isAsciiLetter c \<or> c = 0x03A3) s"

fun lowerLetters :: "bool \<Rightarrow> jsstring \<Rightarrow> jsstring" where
  "lowerLetters preceded [] = []"
| "lowerLetters preceded (c # cs) =
     (if c = 0x03A3 then (if preceded \<and> cs = [] then 0x03C2 else 0x03C3) else asciiLower c)
     # lowerLetters True cs"

text \<open>
  On any other string \<open>toLowerCase\<close> applies the case mapping tables of the runtime, which
  are no part of the repository: the parameter \<open>ucd\<close>.
\<close>

definition toLowerCase :: "(jsstring \<Rightarrow> jsstring) \<Rightarrow> jsstring \<Rightarrow> jsstring" where
  "toLowerCase ucd s =
     (if isAscii s then map asciiLower s
      else if isLettersAndSigma s then lowerLetters False s
      else ucd s)"

section \<open>Skill providers (service/use-tools.ts)\<close>

datatype icon = IconText jsstring | IconObject (background: jsstring) (content: jsstring)

datatype source_type = Git | Upload | Path

text \<open>The type \<open>SkillProvider\<close>; its field \<open>id\<close> is written \<open>id'\<close>.\<close>

record SkillProvider =
  id' :: jsstring
  name :: jsstring
  skill_identifier :: jsstring
  description :: jsstring
  icon :: "icon option"
  source_type :: source_type
  source_url :: "jsstring option"
  version :: jsstring
  author :: "jsstring option"
  has_scripts :: bool
  enabled :: bool
  created_at :: jsstring
  updated_at :: "jsstring option"

section \<open>The skill list (tools/skill/index.tsx)\<close>

text \<open>
  \<open>filteredList\<close>: \<open>list.filter\<close> keeps the elements its callback accepts, in order. The
  callback tests the search text for truthiness first and only then compares lower-cased
  strings.
\<close>

definition filteredList :: "(jsstring \<Rightarrow> jsstring) \<Rightarrow> SkillProvider list \<Rightarrow> jsstring \<Rightarrow> SkillProvider list" where
  "filteredList ucd list searchText =
     filter (\<lambda>provider.
        if truthy searchText then
          includes_str (toLowerCase ucd (name provider)) (toLowerCase ucd searchText)
          \<or> includes_str (toLowerCase ucd (skill_identifier provider)) (toLowerCase ucd searchText)
        else True) list"

text \<open>
  \<open>currentProvider\<close>: \<open>list.find\<close> returns the first element whose id is strictly equal to
  the selected id, or \<open>undefined\<close>. The selected id is \<open>undefined\<close> until a card is chosen.
\<close>

definition currentProvider :: "SkillProvider list \<Rightarrow> jsstring option \<Rightarrow> SkillProvider option" where
  "currentProvider list currentProviderID =
     find (\<lambda>provider. Some (id' provider) = currentProviderID) list"

text \<open>
  What \<open>SkillList\<close> renders: one card per element of the filtered list, and the detail panel
  only when \<open>currentProvider\<close> is an object (\<open>currentProvider && <SkillDetailPanel .../>\<close>).
\<close>

record skill_list_view =
  cards :: "SkillProvider list"
  detail_panel :: "SkillProvider option"

definition SkillList :: "(jsstring \<Rightarrow> jsstring) \<Rightarrow> SkillProvider list \<Rightarrow> jsstring \<Rightarrow> jsstring option \<Rightarrow> skill_list_view" where
  "SkillList ucd list searchText currentProviderID =
     \<lparr> cards = filteredList ucd list searchText,
       detail_panel = currentProvider list currentProviderID \<rparr>"

section \<open>Cache keys and invalidation (service/use-tools.ts)\<close>

text \<open>A \<open>QueryKey\<close> is an array of strings: \<open>[NAME_SPACE, resource, ...]\<close>.\<close>

type_synonym QueryKey = "jsstring list"

definition NAME_SPACE :: jsstring where
  "NAME_SPACE = js ''tools''"

definition useAllBuiltInToolsKey :: QueryKey where
  "useAllBuiltInToolsKey = [NAME_SPACE, js ''builtIn'']"

definition useAllCustomToolsKey :: QueryKey where
  "useAllCustomToolsKey = [NAME_SPACE, js ''customTools'']"

definition useAllWorkflowToolsKey :: QueryKey where
  "useAllWorkflowToolsKey = [NAME_SPACE, js ''workflowTools'']"

definition useAllMCPToolsKey :: QueryKey where
  "useAllMCPToolsKey = [NAME_SPACE, js ''MCPTools'']"

definition useAllSkillToolsKey :: QueryKey where
  "useAllSkillToolsKey = [NAME_SPACE, js ''skillTools'']"

definition useSkillProvidersKey :: QueryKey where
  "useSkillProvidersKey = [NAME_SPACE, js ''skill-providers'']"

text \<open>
  The enum \<open>CollectionType\<close> is declared in \<open>tools/types\<close>, outside the files at hand; the
  strings of its five members that the key table uses are a parameter.
\<close>

record CollectionType =
  builtIn :: jsstring
  custom :: jsstring
  workflow :: jsstring
  mcp :: jsstring
  skill :: jsstring

text \<open>
  \<open>useInvalidToolsKeyMap\<close> is an object literal: its own entries, in the order written, on
  top of what every object inherits from \<open>Object.prototype\<close>.
\<close>

definition useInvalidToolsKeyMap :: "CollectionType \<Rightarrow> (jsstring \<times> QueryKey) list" where
  "useInvalidToolsKeyMap ct =
     [(builtIn ct, useAllBuiltInToolsKey),
      (custom ct, useAllCustomToolsKey),
      (workflow ct, useAllWorkflowToolsKey),
      (mcp ct, useAllMCPToolsKey),
      (skill ct, useAllSkillToolsKey)]"

text \<open>
  The names of the properties of \<open>Object.prototype\<close>. Eleven of them hold functions; the
  accessor \<open>__proto__\<close> yields the prototype object itself. None of these values is
  \<open>undefined\<close> and none is a query key.
\<close>

definition Object_prototype_names :: "jsstring list" where
  "Object_prototype_names =
     map js
       [''constructor'', ''__defineGetter__'', ''__defineSetter__'', ''hasOwnProperty'',
        ''__lookupGetter__'', ''__lookupSetter__'', ''isPrototypeOf'',
        ''propertyIsEnumerable'', ''toString'', ''valueOf'', ''__proto__'',
        ''toLocaleString'']"

text \<open>
  What the read \<open>useInvalidToolsKeyMap[type]\<close> can yield: \<open>undefined\<close>, the query key of an
  own entry, or the value inherited under the given name.
\<close>

datatype key_value = Undefined | Key QueryKey | Inherited jsstring

text \<open>
  The read takes the own entry written last for the name; without one it follows the
  prototype chain; without an inherited property either it yields \<open>undefined\<close>.
\<close>

definition useInvalidToolsKeyMap_get :: "CollectionType \<Rightarrow> jsstring \<Rightarrow> key_value" where
  "useInvalidToolsKeyMap_get ct type =
     (case map_of (rev (useInvalidToolsKeyMap ct)) type of
        Some k \<Rightarrow> Key k
      | None \<Rightarrow> if type \<in> set Object_prototype_names then Inherited type else Undefined)"

text \<open>
  The cache: each cached query with its key and whether it has been marked stale.
\<close>

type_synonym query_cache = "(QueryKey \<times> bool) list"

text \<open>
  Modelled from the spec: \<open>useInvalid\<close> of \<open>service/use-base\<close>, which is not among the files
  at hand. The specification has an invalidate function mark the cached list of its key
  stale, and has the invalidation of an undefined key do nothing. It says nothing of an
  argument that is neither: what the cache does with the value inherited under a name is
  the parameter \<open>other\<close>.
\<close>

definition useInvalid :: "(jsstring \<Rightarrow> query_cache \<Rightarrow> query_cache) \<Rightarrow> key_value \<Rightarrow> query_cache \<Rightarrow> query_cache" where
  "useInvalid other key cache =
     (case key of
        Undefined \<Rightarrow> cache
      | Key k \<Rightarrow> map (\<lambda>(k', stale). (k', stale \<or> k' = k)) cache
      | Inherited n \<Rightarrow> other n cache)"

text \<open>
  \<open>useInvalidToolsByType\<close>: the argument is optional; \<open>type ? ... : undefined\<close> treats the
  empty string like a missing one.
\<close>

definition queryKey_of_type :: "CollectionType \<Rightarrow> jsstring option \<Rightarrow> key_value" where
  "queryKey_of_type ct type =
     (case type of
        None \<Rightarrow> Undefined
      | Some t \<Rightarrow> if truthy t then useInvalidToolsKeyMap_get ct t else Undefined)"

definition useInvalidToolsByType :: "(jsstring \<Rightarrow> query_cache \<Rightarrow> query_cache) \<Rightarrow> CollectionType \<Rightarrow> jsstring option \<Rightarrow> query_cache \<Rightarrow> query_cache" where
  "useInvalidToolsByType other ct type cache = useInvalid other (queryKey_of_type ct type) cache"

section \<open>Requests of the skill mutations (service/use-tools.ts)\<close>

text \<open>A browser \<open>File\<close>: its name and its bytes.\<close>

record file_obj =
  filename :: jsstring
  bytes :: "8 word list"

text \<open>
  The payload of \<open>useInstallSkill\<close>; every field but \<open>source_type\<close> is optional. The field
  names carry the prefix \<open>req_\<close> to keep them apart from those of \<open>SkillProvider\<close>.
\<close>

datatype install_source = SourceGit | SourcePath

record install_payload =
  req_source_type :: install_source
  req_git_url :: "jsstring option"
  req_git_branch :: "jsstring option"
  req_path :: "jsstring option"
  req_name :: "jsstring option"

record upload_payload =
  up_file :: file_obj
  up_name :: "jsstring option"

datatype form_value = FormFile file_obj | FormString jsstring

datatype request_body = JsonBody install_payload | FormData "(string \<times> form_value) list"

datatype request = Post string request_body

text \<open>\<open>mutationFn\<close> of \<open>useInstallSkill\<close>: the payload is the JSON body.\<close>

definition installSkill :: "install_payload \<Rightarrow> request" where
  "installSkill payload =
     Post ''/workspaces/current/tool-provider/skill/install'' (JsonBody payload)"

text \<open>
  \<open>mutationFn\<close> of \<open>useUploadSkill\<close>: a multipart form with the file, and with the name only
  when \<open>payload.name\<close> is truthy.
\<close>

definition uploadSkill :: "upload_payload \<Rightarrow> request" where
  "uploadSkill payload =
     Post ''/workspaces/current/tool-provider/skill/upload''
       (FormData ([(''file'', FormFile (up_file payload))] @
          (case up_name payload of
             None \<Rightarrow> []
           | Some n \<Rightarrow> if truthy n then [(''name'', FormString n)] else [])))"

section \<open>The install modal (tools/skill/modal.tsx)\<close>

datatype TabType = TabGit | TabUpload

text \<open>
  The state variables of \<open>SkillModal\<close>. \<open>name'\<close> is the variable \<open>name\<close>, declared once and
  bound to the display-name input of both forms; \<open>file'\<close> is the variable \<open>file\<close>.
\<close>

record modal_state =
  activeTab :: TabType
  isLoading :: bool
  gitUrl :: jsstring
  gitBranch :: jsstring
  name' :: jsstring
  file' :: "file_obj option"

definition initial_state :: modal_state where
  "initial_state =
     \<lparr> activeTab = TabGit, isLoading = False, gitUrl = [], gitBranch = js ''main'',
       name' = [], file' = None \<rparr>"

text \<open>
  A value thrown by a rejected request: \<open>error?.message\<close> is a string or \<open>undefined\<close>.
\<close>

datatype thrown = Thrown (message: "jsstring option")

text \<open>
  A toast message is a translation \<open>t(key)\<close> or a string taken from a thrown error.
\<close>

datatype toast_type = ToastError | ToastSuccess

datatype toast_message = Translated string | Literal jsstring

text \<open>
  What a handler does, in the order it does it: state setters, toasts, the request it
  issues and how the awaited request settles, the call of the invalidation function bound
  to a cache key, and the callbacks \<open>onConfirm\<close> and \<open>onHide\<close> of the owner.
\<close>

datatype effect =
    SetActiveTab TabType
  | SetIsLoading bool
  | SetGitUrl jsstring
  | SetGitBranch jsstring
  | SetName jsstring
  | SetFile file_obj
  | ToastNotify toast_type toast_message
  | Issued request
  | Resolved SkillProvider
  | Rejected thrown
  | Invalidate QueryKey
  | OnConfirm SkillProvider
  | OnHide

text \<open>\<open>x.trim() || y\<close> and \<open>x.trim() || undefined\<close>.\<close>

definition trim_or :: "jsstring \<Rightarrow> jsstring \<Rightarrow> jsstring" where
  "trim_or x y = (if truthy (trim x) then trim x else y)"

definition trim_or_undefined :: "jsstring \<Rightarrow> jsstring option" where
  "trim_or_undefined x = (if truthy (trim x) then Some (trim x) else None)"

text \<open>\<open>error?.message || t(fallback)\<close>.\<close>

definition error_message :: "thrown \<Rightarrow> string \<Rightarrow> toast_message" where
  "error_message error fallback =
     (case message error of
        None \<Rightarrow> Translated fallback
      | Some m \<Rightarrow> if truthy m then Literal m else Translated fallback)"

text \<open>
  \<open>handleSubmit\<close>. Each tab validates first and returns after the error toast when the
  validation fails. Otherwise it sets the loading flag and awaits the request inside
  \<open>try\<close>: the four success actions follow the resolved request, \<open>catch\<close> shows the error
  of a rejected one, and \<open>finally\<close> resets the loading flag. \<open>server\<close> is the answer of
  the backend to a request.
\<close>

definition handleSubmit :: "(request \<Rightarrow> thrown + SkillProvider) \<Rightarrow> modal_state \<Rightarrow> effect list" where
  "handleSubmit server st =
     (case activeTab st of
        TabGit \<Rightarrow>
          if \<not> truthy (trim (gitUrl st)) then
            [ToastNotify ToastError (Translated ''tools.skill.errors.gitUrlRequired'')]
          else
            (let req = installSkill
                   \<lparr> req_source_type = SourceGit,
                     req_git_url = Some (trim (gitUrl st)),
                     req_git_branch = Some (trim_or (gitBranch st) (js ''main'')),
                     req_path = None,
                     req_name = trim_or_undefined (name' st) \<rparr>
             in [SetIsLoading True, Issued req] @
                (case server req of
                   Inr provider \<Rightarrow>
                     [Resolved provider,
                      Invalidate useSkillProvidersKey,
                      ToastNotify ToastSuccess (Translated ''tools.skill.installSuccess''),
                      OnConfirm provider,
                      OnHide]
                 | Inl error \<Rightarrow>
                     [Rejected error,
                      ToastNotify ToastError
                        (error_message error ''tools.skill.errors.installFailed'')]) @
                [SetIsLoading False])
      | TabUpload \<Rightarrow>
          (case file' st of
             None \<Rightarrow>
               [ToastNotify ToastError (Translated ''tools.skill.errors.fileRequired'')]
           | Some f \<Rightarrow>
               (let req = uploadSkill \<lparr> up_file = f, up_name = trim_or_undefined (name' st) \<rparr>
                in [SetIsLoading True, Issued req] @
                   (case server req of
                      Inr provider \<Rightarrow>
                        [Resolved provider,
                         Invalidate useSkillProvidersKey,
                         ToastNotify ToastSuccess (Translated ''tools.skill.installSuccess''),
                         OnConfirm provider,
                         OnHide]
                    | Inl error \<Rightarrow>
                        [Rejected error,
                         ToastNotify ToastError
                           (error_message error ''tools.skill.errors.uploadFailed'')]) @
                   [SetIsLoading False])))"

text \<open>
  The two \<open>try\<close> blocks differ in the request and in the fallback message only; their
  common shape, for the proofs.
\<close>

definition try_request :: "(request \<Rightarrow> thrown + SkillProvider) \<Rightarrow> request \<Rightarrow> string \<Rightarrow> effect list" where
  "try_request server req fallback =
     [SetIsLoading True, Issued req] @
     (case server req of
        Inr provider \<Rightarrow>
          [Resolved provider,
           Invalidate useSkillProvidersKey,
           ToastNotify ToastSuccess (Translated ''tools.skill.installSuccess''),
           OnConfirm provider,
           OnHide]
      | Inl error \<Rightarrow>
          [Rejected error,
           ToastNotify ToastError (error_message error fallback)]) @
     [SetIsLoading False]"

text \<open>
  \<open>handleFileChange\<close>: \<open>e.target.files\<close> is a list of files or \<open>null\<close>; \<open>files?.[0]\<close> is its
  first element, if any.
\<close>

definition handleFileChange :: "file_obj list option \<Rightarrow> effect list" where
  "handleFileChange files =
     (case files of
        None \<Rightarrow> []
      | Some [] \<Rightarrow> []
      | Some (selectedFile # _) \<Rightarrow>
          if \<not> endsWith (filename selectedFile) (js ''.zip'') then
            [ToastNotify ToastError (Translated ''tools.skill.errors.invalidFileType'')]
          else [SetFile selectedFile])"

text \<open>The state setters act on the state of the modal; nothing else does.\<close>

fun apply_effect :: "modal_state \<Rightarrow> effect \<Rightarrow> modal_state" where
  "apply_effect st (SetActiveTab tab) = st\<lparr>activeTab := tab\<rparr>"
| "apply_effect st (SetIsLoading b) = st\<lparr>isLoading := b\<rparr>"
| "apply_effect st (SetGitUrl v) = st\<lparr>gitUrl := v\<rparr>"
| "apply_effect st (SetGitBranch v) = st\<lparr>gitBranch := v\<rparr>"
| "apply_effect st (SetName v) = st\<lparr>name' := v\<rparr>"
| "apply_effect st (SetFile f) = st\<lparr>file' := Some f\<rparr>"
| "apply_effect st _ = st"

definition apply_effects :: "modal_state \<Rightarrow> effect list \<Rightarrow> modal_state" where
  "apply_effects st effects = foldl apply_effect st effects"

text \<open>
  The owner of the modal (\<open>NewSkillCard\<close>) renders it while \<open>showModal\<close> holds and passes
  \<open>onHide = () => setShowModal(false)\<close>.
\<close>

definition showModal_after :: "bool \<Rightarrow> effect list \<Rightarrow> bool" where
  "showModal_after showModal effects = (showModal \<and> OnHide \<notin> set effects)"

text \<open>Observations of a run: the requests issued, the success toasts, the confirmations.\<close>

fun issued :: "effect list \<Rightarrow> request list" where
  "issued [] = []"
| "issued (Issued r # es) = r # issued es"
| "issued (_ # es) = issued es"

fun invalidations :: "effect list \<Rightarrow> QueryKey list" where
  "invalidations [] = []"
| "invalidations (Invalidate k # es) = k # invalidations es"
| "invalidations (_ # es) = invalidations es"

fun success_toasts :: "effect list \<Rightarrow> toast_message list" where
  "success_toasts [] = []"
| "success_toasts (ToastNotify ToastSuccess m # es) = m # success_toasts es"
| "success_toasts (_ # es) = success_toasts es"

fun error_toasts :: "effect list \<Rightarrow> toast_message list" where
  "error_toasts [] = []"
| "error_toasts (ToastNotify ToastError m # es) = m # error_toasts es"
| "error_toasts (_ # es) = error_toasts es"

fun confirmations :: "effect list \<Rightarrow> SkillProvider list" where
  "confirmations [] = []"
| "confirmations (OnConfirm p # es) = p # confirmations es"
| "confirmations (_ # es) = confirmations es"

text \<open>The display name a request carries: the JSON field or the form field \<open>name\<close>.\<close>

fun sent_name :: "request \<Rightarrow> jsstring option" where
  "sent_name (Post url (JsonBody payload)) = req_name payload"
| "sent_name (Post url (FormData form)) =
     (case map_of form ''name'' of Some (FormString n) \<Rightarrow> Some n | _ \<Rightarrow> None)"

text \<open>
  The specification's reading of the filter, in its own words: \<open>s\<close> is a case-insensitive
  substring of \<open>t\<close> when a run of consecutive units of \<open>t\<close> spells \<open>s\<close> up to the case of
  its letters. Two units are the same letter when they are equal or are the capital and
  the small form of one of the letters A to Z.
\<close>

definition same_letter :: "code_unit \<Rightarrow> code_unit \<Rightarrow> bool" where
  "same_letter a b =
     (a = b \<or> (0x41 \<le> a \<and> a \<le> 0x5A \<and> b = a + 0x20) \<or> (0x41 \<le> b \<and> b \<le> 0x5A \<and> a = b + 0x20))"

definition ci_substring :: "jsstring \<Rightarrow> jsstring \<Rightarrow> bool" where
  "ci_substring s t = (\<exists>pre run post. t = pre @ run @ post \<and> list_all2 same_letter run s)"

section \<open>Sample data\<close>

text \<open>The provider of the test factory \<open>createSkillProvider\<close> (index.spec.tsx).\<close>

definition example_provider :: SkillProvider where
  "example_provider =
     \<lparr> id' = js ''skill-1'', name = js ''Test Skill'', skill_identifier = js ''test-skill'',
       description = js ''A test skill for unit testing'',
       icon = Some (IconObject (js ''#6366f1'') [0xD83C, 0xDFAF]),
       source_type = Git, source_url = Some (js ''https://github.com/test/skill''),
       version = js ''1.0.0'', author = Some (js ''Test Author''), has_scripts = True,
       enabled = True, created_at = js ''2024-01-01T00:00:00Z'', updated_at = None \<rparr>"

text \<open>The provider of the test \<open>should handle case-insensitive search\<close> (index.spec.tsx).\<close>

definition example_uppercase :: SkillProvider where
  "example_uppercase = example_provider\<lparr>name := js ''UPPERCASE SKILL''\<rparr>"

text \<open>A provider whose name is the letter A followed by a capital sigma.\<close>

definition example_sigma :: SkillProvider where
  "example_sigma = example_provider\<lparr>name := [0x0041, 0x03A3]\<rparr>"

definition example_types :: CollectionType where
  "example_types =
     \<lparr> builtIn = js ''builtin'', custom = js ''api'', workflow = js ''workflow'',
       mcp = js ''mcp'', skill = js ''skill'' \<rparr>"

definition example_cache :: query_cache where
  "example_cache = [(useAllSkillToolsKey, False), (useSkillProvidersKey, False)]"

text \<open>A git form with a padded URL and a blank branch field.\<close>

definition example_git_form :: modal_state where
  "example_git_form =
     initial_state\<lparr>gitUrl := js '' https://x/y '', gitBranch := js ''  ''\<rparr>"

definition example_install_request :: request where
  "example_install_request =
     Post ''/workspaces/current/tool-provider/skill/install''
       (JsonBody
          \<lparr> req_source_type = SourceGit, req_git_url = Some (js ''https://x/y''),
            req_git_branch = Some (js ''main''), req_path = None, req_name = None \<rparr>)"

definition example_blank_form :: modal_state where
  "example_blank_form = initial_state\<lparr>gitUrl := js ''   ''\<rparr>"

definition example_zip :: file_obj where
  "example_zip = \<lparr> filename = js ''skill.zip'', bytes = [0x50, 0x4B, 0x03, 0x04] \<rparr>"

definition example_txt :: file_obj where
  "example_txt = \<lparr> filename = js ''notes.txt'', bytes = [] \<rparr>"

definition example_upload_form :: modal_state where
  "example_upload_form = initial_state\<lparr>activeTab := TabUpload, file' := Some example_zip\<rparr>"

definition example_empty_upload_form :: modal_state where
  "example_empty_upload_form = initial_state\<lparr>activeTab := TabUpload\<rparr>"

definition accepting :: "request \<Rightarrow> thrown + SkillProvider" where
  "accepting req = Inr example_provider"

definition rejecting :: "request \<Rightarrow> thrown + SkillProvider" where
  "rejecting req = Inl (Thrown (Some (js ''Install failed'')))"

section \<open>Facts about the string operations\<close>

lemma startsWith_iff: "startsWith t s \<longleftrightarrow> (\<exists>post. t = s @ post)"
  by (induction t s rule: startsWith.induct) auto

lemma includes_str_iff: "includes_str t s \<longleftrightarrow> (\<exists>pre post. t = pre @ s @ post)"
proof (induction t)
  case Nil
  show ?case by (auto simp: startsWith_iff)
next
  case (Cons x xs)
  show ?case
  proof
    assume "includes_str (x # xs) s"
    then consider "startsWith (x # xs) s" | "includes_str xs s" by auto
    then show "\<exists>pre post. x # xs = pre @ s @ post"
    proof cases
      case 1
      then obtain post where "x # xs = s @ post" by (auto simp: startsWith_iff)
      then have "x # xs = [] @ s @ post" by simp
      then show ?thesis by blast
    next
      case 2
      with Cons.IH obtain pre post where "xs = pre @ s @ post" by blast
      then have "x # xs = (x # pre) @ s @ post" by simp
      then show ?thesis by blast
    qed
  next
    assume "\<exists>pre post. x # xs = pre @ s @ post"
    then obtain pre post where eq: "x # xs = pre @ s @ post" by blast
    show "includes_str (x # xs) s"
    proof (cases pre)
      case Nil
      with eq have "startsWith (x # xs) s" by (auto simp: startsWith_iff)
      then show ?thesis by simp
    next
      case (Cons p ps)
      with eq have "xs = ps @ s @ post" by simp
      with Cons.IH have "includes_str xs s" by blast
      then show ?thesis by simp
    qed
  qed
qed

lemma endsWith_iff: "endsWith t s \<longleftrightarrow> (\<exists>pre. t = pre @ s)"
proof -
  have "endsWith t s \<longleftrightarrow> (\<exists>post. rev t = rev s @ post)"
    by (simp add: endsWith_def startsWith_iff)
  also have "\<dots> \<longleftrightarrow> (\<exists>pre. t = pre @ s)"
  proof
    assume "\<exists>post. rev t = rev s @ post"
    then obtain post where "rev t = rev s @ post" by blast
    then have "rev (rev t) = rev (rev s @ post)" by simp
    then have "t = rev post @ s" by simp
    then show "\<exists>pre. t = pre @ s" by blast
  next
    assume "\<exists>pre. t = pre @ s"
    then obtain pre where "t = pre @ s" by blast
    then have "rev t = rev s @ rev pre" by simp
    then show "\<exists>post. rev t = rev s @ post" by blast
  qed
  finally show ?thesis .
qed

lemma toLowerCase_empty: "toLowerCase ucd [] = []"
  by (simp add: toLowerCase_def isAscii_def)

lemma includes_str_empty: "includes_str t []"
  by (cases t) simp_all

text \<open>Lower-casing identifies exactly the two forms of a letter.\<close>

lemma asciiLower_eq_iff: "asciiLower a = asciiLower b \<longleftrightarrow> same_letter a b"
  unfolding asciiLower_def same_letter_def by (auto; unat_arith)

lemma map_asciiLower_eq_iff:
  "map asciiLower run = map asciiLower s \<longleftrightarrow> list_all2 same_letter run s"
proof -
  have "map asciiLower run = map asciiLower s \<longleftrightarrow>
      list_all2 (=) (map asciiLower run) (map asciiLower s)"
    by (simp add: list.rel_eq)
  also have "\<dots> \<longleftrightarrow> list_all2 (\<lambda>a b. asciiLower a = asciiLower b) run s"
    by (simp add: list_all2_map1 list_all2_map2)
  also have "\<dots> \<longleftrightarrow> list_all2 same_letter run s"
    by (simp add: asciiLower_eq_iff)
  finally show ?thesis .
qed

text \<open>
  On ASCII strings the comparison of the filter is the containment of the specification.
\<close>

lemma includes_str_lowered_ascii:
  assumes "isAscii t" and "isAscii s"
  shows "includes_str (toLowerCase ucd t) (toLowerCase ucd s) \<longleftrightarrow> ci_substring s t"
proof -
  have "includes_str (toLowerCase ucd t) (toLowerCase ucd s) \<longleftrightarrow>
      (\<exists>pre post. map asciiLower t = pre @ map asciiLower s @ post)"
    using assms by (simp add: toLowerCase_def includes_str_iff)
  also have "\<dots> \<longleftrightarrow> (\<exists>pre run post. t = pre @ run @ post \<and> map asciiLower run = map asciiLower s)"
  proof
    assume "\<exists>pre post. map asciiLower t = pre @ map asciiLower s @ post"
    then obtain pre post where "map asciiLower t = pre @ map asciiLower s @ post"
      by blast
    then obtain us vs where t: "t = us @ vs" and "pre = map asciiLower us"
      and "map asciiLower s @ post = map asciiLower vs"
      by (auto simp: map_eq_append_conv)
    then obtain run ws where "vs = run @ ws" and "map asciiLower s = map asciiLower run"
      by (auto simp: append_eq_map_conv)
    with t have "t = us @ run @ ws \<and> map asciiLower run = map asciiLower s"
      by simp
    then show "\<exists>pre run post. t = pre @ run @ post \<and> map asciiLower run = map asciiLower s"
      by blast
  next
    assume "\<exists>pre run post. t = pre @ run @ post \<and> map asciiLower run = map asciiLower s"
    then obtain pre run post where "t = pre @ run @ post"
      and "map asciiLower run = map asciiLower s"
      by blast
    then have "map asciiLower t = map asciiLower pre @ map asciiLower s @ map asciiLower post"
      by simp
    then show "\<exists>pre post. map asciiLower t = pre @ map asciiLower s @ post"
      by blast
  qed
  also have "\<dots> \<longleftrightarrow> ci_substring s t"
    by (simp add: ci_substring_def map_asciiLower_eq_iff)
  finally show ?thesis .
qed

text \<open>Trimming leaves nothing exactly when every code unit is white space.\<close>

lemma trim_empty_iff: "trim s = [] \<longleftrightarrow> (\<forall>c\<in>set s. isWhiteSpace c)"
proof -
  have inner: "(\<forall>c\<in>set (dropWhile isWhiteSpace s). isWhiteSpace c) \<longleftrightarrow> dropWhile isWhiteSpace s = []"
  proof (cases "dropWhile isWhiteSpace s")
    case Nil
    show ?thesis unfolding Nil by simp
  next
    case (Cons x xs)
    then have "\<not> isWhiteSpace (hd (dropWhile isWhiteSpace s))"
      using hd_dropWhile [of isWhiteSpace s] by simp
    with Cons show ?thesis by auto
  qed
  have "trim s = [] \<longleftrightarrow> (\<forall>c\<in>set (dropWhile isWhiteSpace s). isWhiteSpace c)"
    by (simp add: trim_def dropWhile_eq_Nil_conv)
  also have "\<dots> \<longleftrightarrow> dropWhile isWhiteSpace s = []" by (rule inner)
  also have "\<dots> \<longleftrightarrow> (\<forall>c\<in>set s. isWhiteSpace c)" by (simp add: dropWhile_eq_Nil_conv)
  finally show ?thesis .
qed

section \<open>Facts about the submit handler\<close>

lemma handleSubmit_try_request:
  "handleSubmit server st =
     (case activeTab st of
        TabGit \<Rightarrow>
          if \<not> truthy (trim (gitUrl st)) then
            [ToastNotify ToastError (Translated ''tools.skill.errors.gitUrlRequired'')]
          else
            try_request server
              (installSkill
                 \<lparr> req_source_type = SourceGit,
                   req_git_url = Some (trim (gitUrl st)),
                   req_git_branch = Some (trim_or (gitBranch st) (js ''main'')),
                   req_path = None,
                   req_name = trim_or_undefined (name' st) \<rparr>)
              ''tools.skill.errors.installFailed''
      | TabUpload \<Rightarrow>
          (case file' st of
             None \<Rightarrow>
               [ToastNotify ToastError (Translated ''tools.skill.errors.fileRequired'')]
           | Some f \<Rightarrow>
               try_request server
                 (uploadSkill \<lparr> up_file = f, up_name = trim_or_undefined (name' st) \<rparr>)
                 ''tools.skill.errors.uploadFailed''))"
  by (simp add: handleSubmit_def try_request_def Let_def split: TabType.splits option.splits)

lemma try_request_success:
  "server req = Inr provider \<Longrightarrow>
   try_request server req fallback =
     [SetIsLoading True, Issued req, Resolved provider, Invalidate useSkillProvidersKey,
      ToastNotify ToastSuccess (Translated ''tools.skill.installSuccess''),
      OnConfirm provider, OnHide, SetIsLoading False]"
  by (simp add: try_request_def)

lemma try_request_failure:
  "server req = Inl error \<Longrightarrow>
   try_request server req fallback =
     [SetIsLoading True, Issued req, Rejected error,
      ToastNotify ToastError (error_message error fallback), SetIsLoading False]"
  by (simp add: try_request_def)

lemma issued_try_request: "issued (try_request server req fallback) = [req]"
  by (cases "server req") (simp_all add: try_request_success try_request_failure)

lemma handleSubmit_cases:
  "(\<exists>key. handleSubmit server st = [ToastNotify ToastError (Translated key)]) \<or>
   (\<exists>req fallback. handleSubmit server st = try_request server req fallback)"
  by (auto simp: handleSubmit_try_request split: TabType.splits option.splits)

lemma handleSubmit_issued:
  assumes "issued (handleSubmit server st) = [req]"
  shows "\<exists>fallback. handleSubmit server st = try_request server req fallback"
proof -
  from handleSubmit_cases [of server st] show ?thesis
  proof
    assume "\<exists>key. handleSubmit server st = [ToastNotify ToastError (Translated key)]"
    with assms show ?thesis by auto
  next
    assume "\<exists>r fallback. handleSubmit server st = try_request server r fallback"
    then obtain r fallback where eq: "handleSubmit server st = try_request server r fallback"
      by blast
    with assms have "r = req" by (simp add: issued_try_request)
    with eq show ?thesis by blast
  qed
qed

lemma apply_effects_try_request:
  "gitUrl (apply_effects st (try_request server req fallback)) = gitUrl st \<and>
   gitBranch (apply_effects st (try_request server req fallback)) = gitBranch st \<and>
   name' (apply_effects st (try_request server req fallback)) = name' st \<and>
   file' (apply_effects st (try_request server req fallback)) = file' st \<and>
   activeTab (apply_effects st (try_request server req fallback)) = activeTab st"
  by (cases "server req")
     (simp_all add: try_request_success try_request_failure apply_effects_def)

text \<open>Unfolding rules that evaluate the handlers on the sample data.\<close>

lemmas modal_eval =
  handleSubmit_try_request try_request_def installSkill_def uploadSkill_def
  handleFileChange_def trim_def trim_or_def trim_or_undefined_def truthy_def
  isWhiteSpace_def js_def initial_state_def example_git_form_def example_blank_form_def
  example_upload_form_def example_empty_upload_form_def example_zip_def example_txt_def
  accepting_def rejecting_def example_install_request_def apply_effects_def
  showModal_after_def error_message_def endsWith_def

lemmas key_eval =
  useInvalidToolsByType_def queryKey_of_type_def useInvalidToolsKeyMap_get_def
  useInvalidToolsKeyMap_def useInvalid_def Object_prototype_names_def example_types_def
  example_cache_def truthy_def
  useAllSkillToolsKey_def useSkillProvidersKey_def useAllMCPToolsKey_def
  useAllWorkflowToolsKey_def useAllCustomToolsKey_def useAllBuiltInToolsKey_def
  NAME_SPACE_def js_def

lemma issued_example_git_form:
  "issued (handleSubmit server example_git_form) = [example_install_request]"
  by (simp add: handleSubmit_try_request issued_try_request installSkill_def trim_def
      trim_or_def trim_or_undefined_def truthy_def isWhiteSpace_def js_def initial_state_def
      example_git_form_def example_install_request_def)

section \<open>The claims\<close>

text \<open>
  A type string that names neither an own entry of the key table nor a property of
  \<open>Object.prototype\<close> resolves to \<open>undefined\<close>, and the cache stays as it was.
\<close>

lemma useInvalidToolsByType_no_property:
  "type \<notin> {builtIn ct, custom ct, workflow ct, mcp ct, skill ct} \<Longrightarrow>
   type \<notin> set Object_prototype_names \<Longrightarrow>
   queryKey_of_type ct (Some type) = Undefined \<and>
   useInvalidToolsByType other ct (Some type) cache = cache"
  by (simp add: useInvalidToolsByType_def queryKey_of_type_def useInvalidToolsKeyMap_get_def
      useInvalidToolsKeyMap_def useInvalid_def)

text \<open>
  C1. The claim has every provider-type string that is not one of the five known collection
  types resolve to no cache key, so that nothing is invalidated and the cache is unchanged.
  The type string \<open>__proto__\<close> is none of the five, yet the key table yields for it the
  object inherited under that name, not \<open>undefined\<close>: the invalidation function is called
  with that value, and the cache is left to what the cache does with it.
\<close>

theorem useInvalidToolsByType_inherited_name:
  "js ''__proto__'' \<notin> {builtIn ct, custom ct, workflow ct, mcp ct, skill ct} \<Longrightarrow>
   queryKey_of_type ct (Some (js ''__proto__'')) = Inherited (js ''__proto__'') \<and>
   queryKey_of_type ct (Some (js ''__proto__'')) \<noteq> Undefined \<and>
   useInvalidToolsByType other ct (Some (js ''__proto__'')) cache =
     other (js ''__proto__'') cache"
proof -
  assume h: "js ''__proto__'' \<notin> {builtIn ct, custom ct, workflow ct, mcp ct, skill ct}"
  have own: "map_of (rev (useInvalidToolsKeyMap ct)) (js ''__proto__'') = None"
    using h by (simp add: useInvalidToolsKeyMap_def)
  have inherited: "js ''__proto__'' \<in> set Object_prototype_names"
    by (simp add: Object_prototype_names_def js_def)
  have nonempty: "truthy (js ''__proto__'')"
    by (simp add: truthy_def js_def)
  from own inherited nonempty
  have key: "queryKey_of_type ct (Some (js ''__proto__'')) = Inherited (js ''__proto__'')"
    by (simp add: queryKey_of_type_def useInvalidToolsKeyMap_get_def)
  then show ?thesis
    by (simp add: useInvalidToolsByType_def useInvalid_def)
qed

theorem useInvalidToolsByType_inherited_name_witness:
  "js ''__proto__'' \<notin> {js ''builtin'', js ''api'', js ''workflow'', js ''mcp'', js ''skill''} \<and>
   queryKey_of_type example_types (Some (js ''__proto__'')) = Inherited (js ''__proto__'') \<and>
   queryKey_of_type example_types (Some (js ''plugin'')) = Undefined \<and>
   queryKey_of_type example_types (Some (js ''skill'')) = Key useAllSkillToolsKey \<and>
   useInvalidToolsByType (\<lambda>n c. c) example_types (Some (js ''skill'')) example_cache =
     [(useAllSkillToolsKey, True), (useSkillProvidersKey, False)]"
proof -
  have h: "js ''__proto__'' \<notin> {builtIn example_types, custom example_types,
      workflow example_types, mcp example_types, skill example_types}"
    by (simp add: example_types_def js_def)
  then have h': "js ''__proto__'' \<notin>
      {js ''builtin'', js ''api'', js ''workflow'', js ''mcp'', js ''skill''}"
    by (simp add: example_types_def)
  have unknown: "queryKey_of_type example_types (Some (js ''plugin'')) = Undefined"
    by (simp add: key_eval)
  have known: "queryKey_of_type example_types (Some (js ''skill'')) = Key useAllSkillToolsKey"
    by (simp add: key_eval)
  have marked: "useInvalidToolsByType (\<lambda>n c. c) example_types (Some (js ''skill'')) example_cache =
     [(useAllSkillToolsKey, True), (useSkillProvidersKey, False)]"
    by (simp add: key_eval)
  from useInvalidToolsByType_inherited_name [OF h] h' unknown known marked show ?thesis
    by blast
qed

text \<open>
  C2. When the request of an install or upload submission succeeds, the handler does, in
  this order and after the request has resolved: one invalidation of the skill-provider
  list key, one success toast, one call of the confirm callback with the provider the
  server returned, and the call that closes the modal. None of the four happens in a run
  without a request that succeeded.
\<close>

theorem handleSubmit_success:
  "(\<forall>req provider.
      issued (handleSubmit server st) = [req] \<and> server req = Inr provider \<longrightarrow>
      handleSubmit server st =
        [SetIsLoading True, Issued req, Resolved provider, Invalidate useSkillProvidersKey,
         ToastNotify ToastSuccess (Translated ''tools.skill.installSuccess''),
         OnConfirm provider, OnHide, SetIsLoading False] \<and>
      invalidations (handleSubmit server st) = [useSkillProvidersKey] \<and>
      length (success_toasts (handleSubmit server st)) = 1 \<and>
      confirmations (handleSubmit server st) = [provider] \<and>
      \<not> showModal_after True (handleSubmit server st)) \<and>
   (invalidations (handleSubmit server st) \<noteq> [] \<or>
    success_toasts (handleSubmit server st) \<noteq> [] \<or>
    confirmations (handleSubmit server st) \<noteq> [] \<or>
    OnHide \<in> set (handleSubmit server st) \<longrightarrow>
    (\<exists>req provider. issued (handleSubmit server st) = [req] \<and> server req = Inr provider))"
proof (intro conjI allI impI)
  fix req provider
  assume h: "issued (handleSubmit server st) = [req] \<and> server req = Inr provider"
  then obtain fallback where "handleSubmit server st = try_request server req fallback"
    using handleSubmit_issued by blast
  with h have eq: "handleSubmit server st =
        [SetIsLoading True, Issued req, Resolved provider, Invalidate useSkillProvidersKey,
         ToastNotify ToastSuccess (Translated ''tools.skill.installSuccess''),
         OnConfirm provider, OnHide, SetIsLoading False]"
    by (simp add: try_request_success)
  show "handleSubmit server st =
        [SetIsLoading True, Issued req, Resolved provider, Invalidate useSkillProvidersKey,
         ToastNotify ToastSuccess (Translated ''tools.skill.installSuccess''),
         OnConfirm provider, OnHide, SetIsLoading False]"
    by (rule eq)
  show "invalidations (handleSubmit server st) = [useSkillProvidersKey]"
    by (simp add: eq)
  show "length (success_toasts (handleSubmit server st)) = 1"
    by (simp add: eq)
  show "confirmations (handleSubmit server st) = [provider]"
    by (simp add: eq)
  show "\<not> showModal_after True (handleSubmit server st)"
    by (simp add: eq showModal_after_def)
next
  assume a: "invalidations (handleSubmit server st) \<noteq> [] \<or>
    success_toasts (handleSubmit server st) \<noteq> [] \<or>
    confirmations (handleSubmit server st) \<noteq> [] \<or>
    OnHide \<in> set (handleSubmit server st)"
  from handleSubmit_cases [of server st]
  show "\<exists>req provider. issued (handleSubmit server st) = [req] \<and> server req = Inr provider"
  proof
    assume "\<exists>key. handleSubmit server st = [ToastNotify ToastError (Translated key)]"
    with a show ?thesis by auto
  next
    assume "\<exists>req fallback. handleSubmit server st = try_request server req fallback"
    then obtain req fallback where eq: "handleSubmit server st = try_request server req fallback"
      by blast
    show ?thesis
    proof (cases "server req")
      case (Inl error)
      with a eq show ?thesis by (simp add: try_request_failure)
    next
      case (Inr provider)
      with eq show ?thesis by (auto simp: issued_try_request)
    qed
  qed
qed

theorem handleSubmit_success_witness:
  "issued (handleSubmit accepting example_git_form) = [example_install_request] \<and>
   accepting example_install_request = Inr example_provider \<and>
   handleSubmit accepting example_git_form =
     [SetIsLoading True, Issued example_install_request, Resolved example_provider,
      Invalidate useSkillProvidersKey,
      ToastNotify ToastSuccess (Translated ''tools.skill.installSuccess''),
      OnConfirm example_provider, OnHide, SetIsLoading False] \<and>
   \<not> showModal_after True (handleSubmit accepting example_git_form)"
proof -
  have h1: "issued (handleSubmit accepting example_git_form) = [example_install_request]"
    by (rule issued_example_git_form)
  have h2: "accepting example_install_request = Inr example_provider"
    by (simp add: accepting_def)
  from handleSubmit_success [of accepting example_git_form] h1 h2 show ?thesis
    by blast
qed

text \<open>
  C3. When the request of an install or upload submission fails, nothing is invalidated,
  the confirm callback is not called, the modal stays open, and the git URL, the branch,
  the display name, the selected file and the active tab keep their values.
\<close>

theorem handleSubmit_failure:
  "issued (handleSubmit server st) = [req] \<Longrightarrow> server req = Inl error \<Longrightarrow>
   invalidations (handleSubmit server st) = [] \<and>
   confirmations (handleSubmit server st) = [] \<and>
   showModal_after True (handleSubmit server st) \<and>
   gitUrl (apply_effects st (handleSubmit server st)) = gitUrl st \<and>
   gitBranch (apply_effects st (handleSubmit server st)) = gitBranch st \<and>
   name' (apply_effects st (handleSubmit server st)) = name' st \<and>
   file' (apply_effects st (handleSubmit server st)) = file' st \<and>
   activeTab (apply_effects st (handleSubmit server st)) = activeTab st"
proof -
  assume h1: "issued (handleSubmit server st) = [req]" and h2: "server req = Inl error"
  from h1 obtain fallback where eq: "handleSubmit server st = try_request server req fallback"
    using handleSubmit_issued by blast
  have "invalidations (try_request server req fallback) = []"
    and "confirmations (try_request server req fallback) = []"
    and "showModal_after True (try_request server req fallback)"
    using h2 by (simp_all add: try_request_failure showModal_after_def)
  then show ?thesis
    using apply_effects_try_request [of st server req fallback] by (simp add: eq)
qed

theorem handleSubmit_failure_witness:
  "issued (handleSubmit rejecting example_git_form) = [example_install_request] \<and>
   rejecting example_install_request = Inl (Thrown (Some (js ''Install failed''))) \<and>
   invalidations (handleSubmit rejecting example_git_form) = [] \<and>
   confirmations (handleSubmit rejecting example_git_form) = [] \<and>
   showModal_after True (handleSubmit rejecting example_git_form) \<and>
   gitUrl (apply_effects example_git_form (handleSubmit rejecting example_git_form)) =
     js '' https://x/y '' \<and>
   error_toasts (handleSubmit rejecting example_git_form) = [Literal (js ''Install failed'')]"
proof -
  have h1: "issued (handleSubmit rejecting example_git_form) = [example_install_request]"
    by (rule issued_example_git_form)
  have h2: "rejecting example_install_request = Inl (Thrown (Some (js ''Install failed'')))"
    by (simp add: rejecting_def)
  have url: "gitUrl example_git_form = js '' https://x/y ''"
    by (simp add: example_git_form_def)
  have toast: "error_toasts (handleSubmit rejecting example_git_form) =
      [Literal (js ''Install failed'')]"
    by (simp add: modal_eval)
  from handleSubmit_failure [OF h1 h2] h1 h2 url toast show ?thesis
    by simp
qed

text \<open>
  C4, as the claim states it, fails: the provider named A-capital-sigma contains the search
  text capital sigma as it stands, and the filter drops it, because lower-casing turns the
  sigma of the name into a final sigma and the sigma of the search text into a small one.
\<close>

theorem filteredList_final_sigma_counterexample:
  "ci_substring [0x03A3] (name example_sigma) \<and>
   filteredList (\<lambda>x. x) [example_sigma] [0x03A3] = [] \<and>
   filteredList (\<lambda>x. x) [example_sigma] [0x03A3] \<noteq>
     filter (\<lambda>p. ci_substring [0x03A3] (name p) \<or> ci_substring [0x03A3] (skill_identifier p))
       [example_sigma]"
proof -
  have "name example_sigma = [0x0041] @ [0x03A3] @ [] \<and> list_all2 same_letter [0x03A3] [0x03A3]"
    by (simp add: example_sigma_def same_letter_def)
  then have c: "ci_substring [0x03A3] (name example_sigma)"
    unfolding ci_substring_def by blast
  have e: "filteredList (\<lambda>x. x) [example_sigma] [0x03A3] = []"
    by (simp add: filteredList_def truthy_def toLowerCase_def isAscii_def isLettersAndSigma_def
        isAsciiLetter_def asciiLower_def example_sigma_def example_provider_def js_def)
  from c have "filter (\<lambda>p. ci_substring [0x03A3] (name p) \<or> ci_substring [0x03A3] (skill_identifier p))
       [example_sigma] = [example_sigma]"
    by simp
  with c e show ?thesis
    by simp
qed

text \<open>
  C4, amended. The filtered list is the sublist of the collection, in its order, of the
  providers whose lower-cased name or lower-cased identifier contains the lower-cased
  search text. When the search text and the names and identifiers of the collection are
  ASCII, these are the providers whose name or identifier contains the search text as a
  case-insensitive substring. The empty search text returns the collection as it is, and
  searching \<open>alpha\<close> in the collection of Alpha/alpha and Beta/beta returns the first
  provider alone.
\<close>

theorem filteredList_spec:
  "filteredList ucd L s =
     filter (\<lambda>p. (\<exists>pre post. toLowerCase ucd (name p) = pre @ toLowerCase ucd s @ post) \<or>
                 (\<exists>pre post. toLowerCase ucd (skill_identifier p) = pre @ toLowerCase ucd s @ post))
       L \<and>
   (isAscii s \<and> (\<forall>p\<in>set L. isAscii (name p) \<and> isAscii (skill_identifier p)) \<longrightarrow>
    filteredList ucd L s =
      filter (\<lambda>p. ci_substring s (name p) \<or> ci_substring s (skill_identifier p)) L) \<and>
   filteredList ucd L [] = L \<and>
   filteredList ucd
     [p1\<lparr>id' := js ''s1'', name := js ''Alpha'', skill_identifier := js ''alpha''\<rparr>,
      p2\<lparr>id' := js ''s2'', name := js ''Beta'', skill_identifier := js ''beta''\<rparr>]
     (js ''alpha'') =
     [p1\<lparr>id' := js ''s1'', name := js ''Alpha'', skill_identifier := js ''alpha''\<rparr>]"
proof (intro conjI impI)
  show "filteredList ucd L s =
     filter (\<lambda>p. (\<exists>pre post. toLowerCase ucd (name p) = pre @ toLowerCase ucd s @ post) \<or>
                 (\<exists>pre post. toLowerCase ucd (skill_identifier p) = pre @ toLowerCase ucd s @ post))
       L"
  proof (cases "s = []")
    case True
    have "\<exists>pre post. t = pre @ post" for t :: jsstring
      by (rule exI [of _ "[]"]) simp
    with True show ?thesis
      by (simp add: filteredList_def truthy_def toLowerCase_empty)
  next
    case False
    then show ?thesis
      by (simp add: filteredList_def truthy_def includes_str_iff)
  qed
next
  assume ascii: "isAscii s \<and> (\<forall>p\<in>set L. isAscii (name p) \<and> isAscii (skill_identifier p))"
  show "filteredList ucd L s =
      filter (\<lambda>p. ci_substring s (name p) \<or> ci_substring s (skill_identifier p)) L"
  proof (cases "s = []")
    case True
    have "ci_substring [] t" for t
    proof -
      have "t = [] @ [] @ t \<and> list_all2 same_letter [] []"
        by simp
      then show ?thesis
        unfolding ci_substring_def by blast
    qed
    with True show ?thesis
      by (simp add: filteredList_def truthy_def)
  next
    case False
    with ascii show ?thesis
      by (auto simp: filteredList_def truthy_def includes_str_lowered_ascii intro!: filter_cong)
  qed
next
  show "filteredList ucd L [] = L"
    by (simp add: filteredList_def truthy_def)
next
  show "filteredList ucd
     [p1\<lparr>id' := js ''s1'', name := js ''Alpha'', skill_identifier := js ''alpha''\<rparr>,
      p2\<lparr>id' := js ''s2'', name := js ''Beta'', skill_identifier := js ''beta''\<rparr>]
     (js ''alpha'') =
     [p1\<lparr>id' := js ''s1'', name := js ''Alpha'', skill_identifier := js ''alpha''\<rparr>]"
    by (simp add: filteredList_def truthy_def js_def toLowerCase_def isAscii_def asciiLower_def)
qed

theorem filteredList_spec_witness:
  "isAscii (js ''uppercase'') \<and>
   isAscii (name example_uppercase) \<and> isAscii (skill_identifier example_uppercase) \<and>
   ci_substring (js ''uppercase'') (name example_uppercase) \<and>
   \<not> includes_str (name example_uppercase) (js ''uppercase'') \<and>
   \<not> includes_str (skill_identifier example_uppercase) (js ''uppercase'') \<and>
   filteredList (\<lambda>x. x) [example_uppercase] (js ''uppercase'') = [example_uppercase] \<and>
   filteredList (\<lambda>x. x) [example_uppercase] (js ''lowercase'') = []"
proof -
  have a1: "isAscii (js ''uppercase'')"
    by (simp add: isAscii_def js_def)
  have a2: "isAscii (name example_uppercase)"
    by (simp add: isAscii_def js_def example_uppercase_def)
  have a3: "isAscii (skill_identifier example_uppercase)"
    by (simp add: isAscii_def js_def example_uppercase_def example_provider_def)
  have "name example_uppercase = [] @ js ''UPPERCASE'' @ js '' SKILL'' \<and>
      list_all2 same_letter (js ''UPPERCASE'') (js ''uppercase'')"
    by (simp add: example_uppercase_def js_def same_letter_def)
  then have c: "ci_substring (js ''uppercase'') (name example_uppercase)"
    unfolding ci_substring_def by blast
  have n1: "\<not> includes_str (name example_uppercase) (js ''uppercase'')"
    by (simp add: example_uppercase_def js_def)
  have n2: "\<not> includes_str (skill_identifier example_uppercase) (js ''uppercase'')"
    by (simp add: example_uppercase_def example_provider_def js_def)
  have all: "isAscii (js ''uppercase'') \<and>
      (\<forall>p\<in>set [example_uppercase]. isAscii (name p) \<and> isAscii (skill_identifier p))"
    using a1 a2 a3 by simp
  have "filteredList (\<lambda>x. x) [example_uppercase] (js ''uppercase'') =
      filter (\<lambda>p. ci_substring (js ''uppercase'') (name p) \<or>
                  ci_substring (js ''uppercase'') (skill_identifier p)) [example_uppercase]"
    using filteredList_spec [of "\<lambda>x. x" "[example_uppercase]" "js ''uppercase''"] all
    by blast
  with c have f: "filteredList (\<lambda>x. x) [example_uppercase] (js ''uppercase'') = [example_uppercase]"
    by simp
  have g: "filteredList (\<lambda>x. x) [example_uppercase] (js ''lowercase'') = []"
    by (simp add: filteredList_def truthy_def toLowerCase_def isAscii_def asciiLower_def
        example_uppercase_def example_provider_def js_def)
  from a1 a2 a3 c n1 n2 f g show ?thesis
    by blast
qed

text \<open>
  C5. A git submission that passes validation issues one install request whose payload has
  the source type git, the trimmed URL, the trimmed branch or \<open>main\<close> when that is empty,
  and the trimmed display name or no name when that is empty.
\<close>

theorem handleSubmit_git_payload:
  "activeTab st = TabGit \<Longrightarrow> trim (gitUrl st) \<noteq> [] \<Longrightarrow>
   issued (handleSubmit server st) =
     [Post ''/workspaces/current/tool-provider/skill/install''
        (JsonBody
           \<lparr> req_source_type = SourceGit,
             req_git_url = Some (trim (gitUrl st)),
             req_git_branch =
               Some (if trim (gitBranch st) = [] then js ''main'' else trim (gitBranch st)),
             req_path = None,
             req_name = (if trim (name' st) = [] then None else Some (trim (name' st))) \<rparr>)]"
  by (simp add: handleSubmit_try_request issued_try_request installSkill_def truthy_def
      trim_or_def trim_or_undefined_def)

theorem handleSubmit_git_payload_witness:
  "activeTab example_git_form = TabGit \<and> trim (gitUrl example_git_form) \<noteq> [] \<and>
   gitBranch example_git_form = js ''  '' \<and>
   issued (handleSubmit accepting example_git_form) =
     [Post ''/workspaces/current/tool-provider/skill/install''
        (JsonBody
           \<lparr> req_source_type = SourceGit, req_git_url = Some (js ''https://x/y''),
             req_git_branch = Some (js ''main''), req_path = None, req_name = None \<rparr>)]"
proof -
  have h1: "activeTab example_git_form = TabGit"
    by (simp add: example_git_form_def initial_state_def)
  have h2: "trim (gitUrl example_git_form) \<noteq> []"
    by (simp add: modal_eval)
  have b: "gitBranch example_git_form = js ''  ''"
    by (simp add: example_git_form_def)
  have v: "trim (gitUrl example_git_form) = js ''https://x/y''"
    "trim (gitBranch example_git_form) = []" "trim (name' example_git_form) = []"
    by (simp_all add: modal_eval)
  have i: "issued (handleSubmit accepting example_git_form) =
     [Post ''/workspaces/current/tool-provider/skill/install''
        (JsonBody
           \<lparr> req_source_type = SourceGit, req_git_url = Some (js ''https://x/y''),
             req_git_branch = Some (js ''main''), req_path = None, req_name = None \<rparr>)]"
    using handleSubmit_git_payload [OF h1 h2, of accepting] by (simp add: v)
  from h1 h2 b i show ?thesis
    by blast
qed

text \<open>
  C6. A git submission whose URL is empty or all white space issues no request and shows
  one error toast; the modal stays open and its state is what it was.
\<close>

theorem handleSubmit_blank_git_url:
  "activeTab st = TabGit \<Longrightarrow> \<forall>c\<in>set (gitUrl st). isWhiteSpace c \<Longrightarrow>
   issued (handleSubmit server st) = [] \<and>
   handleSubmit server st =
     [ToastNotify ToastError (Translated ''tools.skill.errors.gitUrlRequired'')] \<and>
   apply_effects st (handleSubmit server st) = st \<and>
   showModal_after True (handleSubmit server st)"
proof -
  assume tab: "activeTab st = TabGit" and ws: "\<forall>c\<in>set (gitUrl st). isWhiteSpace c"
  from ws have "trim (gitUrl st) = []"
    by (simp add: trim_empty_iff)
  with tab have eq: "handleSubmit server st =
     [ToastNotify ToastError (Translated ''tools.skill.errors.gitUrlRequired'')]"
    by (simp add: handleSubmit_def truthy_def)
  then show ?thesis
    by (simp add: apply_effects_def showModal_after_def)
qed

theorem handleSubmit_blank_git_url_witness:
  "activeTab example_blank_form = TabGit \<and>
   list_all isWhiteSpace (gitUrl example_blank_form) \<and>
   issued (handleSubmit accepting example_blank_form) = [] \<and>
   handleSubmit accepting example_blank_form =
     [ToastNotify ToastError (Translated ''tools.skill.errors.gitUrlRequired'')] \<and>
   apply_effects example_blank_form (handleSubmit accepting example_blank_form) =
     example_blank_form"
proof -
  have h1: "activeTab example_blank_form = TabGit"
    by (simp add: example_blank_form_def initial_state_def)
  have h2: "\<forall>c\<in>set (gitUrl example_blank_form). isWhiteSpace c"
    by (simp add: example_blank_form_def js_def isWhiteSpace_def)
  from h2 have h2': "list_all isWhiteSpace (gitUrl example_blank_form)"
    by (simp add: list_all_iff)
  from handleSubmit_blank_git_url [OF h1 h2, of accepting] h1 h2' show ?thesis
    by blast
qed

text \<open>
  C7. Picking a file whose name does not end in \<open>.zip\<close> shows an error toast and leaves
  the selected file as it was.
\<close>

theorem handleFileChange_rejects_other_names:
  "\<not> (\<exists>pre. filename selectedFile = pre @ js ''.zip'') \<Longrightarrow>
   handleFileChange (Some (selectedFile # others)) =
     [ToastNotify ToastError (Translated ''tools.skill.errors.invalidFileType'')] \<and>
   file' (apply_effects st (handleFileChange (Some (selectedFile # others)))) = file' st"
  by (simp add: handleFileChange_def endsWith_iff apply_effects_def)

theorem handleFileChange_rejects_other_names_witness:
  "\<not> endsWith (filename example_txt) (js ''.zip'') \<and>
   handleFileChange (Some [example_txt]) =
     [ToastNotify ToastError (Translated ''tools.skill.errors.invalidFileType'')] \<and>
   file' (apply_effects example_upload_form (handleFileChange (Some [example_txt]))) =
     Some example_zip \<and>
   handleFileChange (Some [example_zip]) = [SetFile example_zip]"
proof -
  have e: "\<not> endsWith (filename example_txt) (js ''.zip'')"
    by (simp add: modal_eval)
  then have h: "\<not> (\<exists>pre. filename example_txt = pre @ js ''.zip'')"
    by (simp add: endsWith_iff)
  have z: "handleFileChange (Some [example_zip]) = [SetFile example_zip]"
    by (simp add: modal_eval)
  have f: "file' example_upload_form = Some example_zip"
    by (simp add: example_upload_form_def)
  note c = handleFileChange_rejects_other_names [OF h, of "[]" example_upload_form]
  from c have c1: "handleFileChange (Some [example_txt]) =
     [ToastNotify ToastError (Translated ''tools.skill.errors.invalidFileType'')]"
    by blast
  from c have "file' (apply_effects example_upload_form (handleFileChange (Some [example_txt]))) =
     file' example_upload_form"
    by blast
  from this f
  have c2: "file' (apply_effects example_upload_form (handleFileChange (Some [example_txt]))) =
     Some example_zip"
    by (rule trans)
  from e c1 c2 z show ?thesis
    by blast
qed

text \<open>C8. An upload submission with no file selected issues no request.\<close>

theorem handleSubmit_upload_without_file:
  "activeTab st = TabUpload \<Longrightarrow> file' st = None \<Longrightarrow> issued (handleSubmit server st) = []"
  by (simp add: handleSubmit_def)

theorem handleSubmit_upload_without_file_witness:
  "activeTab example_empty_upload_form = TabUpload \<and>
   file' example_empty_upload_form = None \<and>
   issued (handleSubmit accepting example_empty_upload_form) = [] \<and>
   issued (handleSubmit accepting example_upload_form) =
     [Post ''/workspaces/current/tool-provider/skill/upload''
        (FormData [(''file'', FormFile example_zip)])]"
proof -
  have h1: "activeTab example_empty_upload_form = TabUpload"
    by (simp add: example_empty_upload_form_def)
  have h2: "file' example_empty_upload_form = None"
    by (simp add: example_empty_upload_form_def initial_state_def)
  have u: "issued (handleSubmit accepting example_upload_form) =
     [Post ''/workspaces/current/tool-provider/skill/upload''
        (FormData [(''file'', FormFile example_zip)])]"
    by (simp add: modal_eval)
  from handleSubmit_upload_without_file [OF h1 h2, of accepting] h1 h2 u show ?thesis
    by simp
qed

text \<open>
  C9. When the selected id is the id of no provider of the collection, the lookup of the
  current provider finds nothing and the list renders no detail panel.
\<close>

theorem currentProvider_unknown_id:
  "selected \<notin> set (map id' L) \<Longrightarrow>
   currentProvider L (Some selected) = None \<and>
   detail_panel (SkillList ucd L s (Some selected)) = None"
  by (auto simp: SkillList_def currentProvider_def find_None_iff)

theorem currentProvider_unknown_id_witness:
  "js ''skill-9'' \<notin> set (map id' [example_provider]) \<and>
   currentProvider [example_provider] (Some (js ''skill-9'')) = None \<and>
   detail_panel (SkillList (\<lambda>x. x) [example_provider] [] (Some (js ''skill-9''))) = None \<and>
   currentProvider [example_provider] (Some (js ''skill-1'')) = Some example_provider"
proof -
  have h: "js ''skill-9'' \<notin> set (map id' [example_provider])"
    by (simp add: example_provider_def js_def)
  have k: "currentProvider [example_provider] (Some (js ''skill-1'')) = Some example_provider"
    by (simp add: currentProvider_def example_provider_def)
  from currentProvider_unknown_id [OF h, of "\<lambda>x. x" "[]"] h k show ?thesis
    by blast
qed

text \<open>
  C10. The display name is one state variable for both tabs: a name typed while either
  tab is active is still there after switching tabs, and every request a submission
  issues, from the git tab or from the upload tab, carries that name trimmed, or no name
  when the trimmed name is empty.
\<close>

theorem display_name_shared:
  "name' (apply_effects (st0\<lparr>activeTab := typed_in\<rparr>) [SetName n, SetActiveTab submitted_from]) = n \<and>
   (\<forall>req. req \<in> set (issued (handleSubmit server
        (apply_effects (st0\<lparr>activeTab := typed_in\<rparr>) [SetName n, SetActiveTab submitted_from])))
     \<longrightarrow> sent_name req = (if trim n = [] then None else Some (trim n)))"
  by (cases submitted_from)
     (auto simp: apply_effects_def handleSubmit_try_request issued_try_request installSkill_def
       uploadSkill_def trim_or_undefined_def truthy_def split: option.splits)

theorem display_name_shared_witness:
  "issued (handleSubmit accepting
      (apply_effects (example_upload_form\<lparr>activeTab := TabGit\<rparr>)
         [SetName (js '' My Skill ''), SetActiveTab TabUpload])) =
     [Post ''/workspaces/current/tool-provider/skill/upload''
        (FormData [(''file'', FormFile example_zip), (''name'', FormString (js ''My Skill''))])] \<and>
   sent_name (Post ''/workspaces/current/tool-provider/skill/upload''
        (FormData [(''file'', FormFile example_zip), (''name'', FormString (js ''My Skill''))])) =
     Some (js ''My Skill'')"
proof -
  have i: "issued (handleSubmit accepting
      (apply_effects (example_upload_form\<lparr>activeTab := TabGit\<rparr>)
         [SetName (js '' My Skill ''), SetActiveTab TabUpload])) =
     [Post ''/workspaces/current/tool-provider/skill/upload''
        (FormData [(''file'', FormFile example_zip), (''name'', FormString (js ''My Skill''))])]"
    by (simp add: modal_eval)
  have t: "trim (js '' My Skill '') = js ''My Skill''"
    by (simp add: modal_eval)
  have s: "sent_name (Post ''/workspaces/current/tool-provider/skill/upload''
        (FormData [(''file'', FormFile example_zip), (''name'', FormString (js ''My Skill''))])) =
     (if trim (js '' My Skill '') = [] then None else Some (trim (js '' My Skill '')))"
    using display_name_shared [where ?st0.0 = example_upload_form and typed_in = TabGit
        and n = "js '' My Skill ''" and submitted_from = TabUpload and server = accepting]
    by (simp add: i)
  have "js ''My Skill'' \<noteq> []"
    by (simp add: js_def)
  with s t i show ?thesis
    by simp
qed

end
